theory Spec2Isabelle
  imports Complex_Main "HOL-Library.Multiset"
begin

section \<open>Data model of the literature analyzer\<close>

text \<open>
  The model follows \<^verbatim>\<open>src/main.py\<close>, class \<^verbatim>\<open>LiteratureAnalyzer\<close>.

  A Python \<^verbatim>\<open>str\<close> is a sequence of Unicode code points: \<^verbatim>\<open>len\<close> and slicing count
  code points, so a string is a list of code points (natural numbers). ASCII literals of
  the source are written through \<open>ascii\<close>.
\<close>

type_synonym pystr = "nat list"

definition ascii :: "string \<Rightarrow> pystr" where
  "ascii s = map of_char s"

text \<open>
  A value stored under a text key of a paper dictionary. \<^verbatim>\<open>extract_text_from_xml\<close> stores
  \<^verbatim>\<open>title.text\<close>, which is \<^verbatim>\<open>None\<close> for a title element without text, so \<^verbatim>\<open>None\<close> is a
  value the analyzer can meet.
\<close>

datatype pyval = PyNone | PyStr pystr

text \<open>
  A paper is the dictionary built by \<^verbatim>\<open>extract_text_from_xml\<close>: the keys \<^verbatim>\<open>title\<close>,
  \<^verbatim>\<open>abstract\<close>, \<^verbatim>\<open>body\<close> and \<^verbatim>\<open>references\<close>. The analyzer reads every key through
  \<^verbatim>\<open>get\<close> or \<^verbatim>\<open>in\<close>, so each key may be absent: \<open>None\<close> is the absent key.
\<close>

record paper =
  title :: "pyval option"
  abstract :: "pyval option"
  body :: "pyval option"
  references :: "pystr list option"

text \<open>
  The title of \<^verbatim>\<open>extract_text_from_xml\<close>, lines 43-44:
  \<^verbatim>\<open>title.text if title is not None else ""\<close>. The argument is what \<^verbatim>\<open>find\<close> returned:
  \<open>None\<close> when the document has no title element, otherwise the \<^verbatim>\<open>text\<close> attribute of
  the element, which is \<^verbatim>\<open>None\<close> for an element without text.
\<close>

definition title_text :: "pystr option option \<Rightarrow> pyval" where
  "title_text found =
     (case found of
        None \<Rightarrow> PyStr []
      | Some text_attr \<Rightarrow> (case text_attr of None \<Rightarrow> PyNone | Some s \<Rightarrow> PyStr s))"

text \<open>
  The dictionary that \<^verbatim>\<open>extract_text_from_xml\<close> returns (lines 61-66), from the title
  element found, the joined texts of the abstract and of the body, and the reference
  titles.
\<close>

definition extract_paper :: "pystr option option \<Rightarrow> pystr \<Rightarrow> pystr \<Rightarrow> pystr list \<Rightarrow> paper" where
  "extract_paper found_title abstract_text body_text refs =
     \<lparr> title = Some (title_text found_title), abstract = Some (PyStr abstract_text),
       body = Some (PyStr body_text), references = Some refs \<rparr>"

text \<open>\<^verbatim>\<open>if paper\<close>: a dictionary is true when it has at least one key.\<close>

definition paper_truthy :: "paper \<Rightarrow> bool" where
  "paper_truthy p \<longleftrightarrow>
     title p \<noteq> None \<or> abstract p \<noteq> None \<or> body p \<noteq> None \<or> references p \<noteq> None"

text \<open>\<^verbatim>\<open>d.get(key, default)\<close> on the looked-up entry.\<close>

definition dict_get :: "'a option \<Rightarrow> 'a \<Rightarrow> 'a" where
  "dict_get entry dflt = (case entry of None \<Rightarrow> dflt | Some v \<Rightarrow> v)"

text \<open>Truth value of a stored text value: \<^verbatim>\<open>None\<close> and the empty string are false.\<close>

fun pyval_truthy :: "pyval \<Rightarrow> bool" where
  "pyval_truthy PyNone = False"
| "pyval_truthy (PyStr s) = (s \<noteq> [])"

text \<open>How an f-string renders a value: \<^verbatim>\<open>None\<close> is rendered as the word None.\<close>

fun py_format :: "pyval \<Rightarrow> pystr" where
  "py_format PyNone = ascii ''None''"
| "py_format (PyStr s) = s"

section \<open>Reference analysis\<close>

text \<open>
  \<^verbatim>\<open>analyze_references\<close>, lines 171-195. The dictionary \<^verbatim>\<open>reference_stats\<close> is a record;
  \<^verbatim>\<open>reference_years\<close> is created empty and never written. \<^verbatim>\<open>common_references\<close> is a
  Python set, turned into a list in no particular order at the end: it is a set here. The
  average is Python's true division of two integers, modelled as a rational number.
\<close>

record reference_stats =
  total_references :: nat
  common_references :: "pystr set"
  reference_years :: "pystr list"
  avg_references_per_paper :: rat

text \<open>
  One iteration of the loop over \<^verbatim>\<open>self.papers_data\<close>, on the pair of the running total
  and the running common set. The test that chooses between \<^verbatim>\<open>update\<close> and
  \<^verbatim>\<open>intersection_update\<close> is \<^verbatim>\<open>len(common_references) == 0\<close>.
\<close>

definition references_step :: "nat \<times> pystr set \<Rightarrow> paper \<Rightarrow> nat \<times> pystr set" where
  "references_step acc p =
     (case acc of (tot, common) \<Rightarrow>
        (case references p of
           None \<Rightarrow> (tot, common)
         | Some refs \<Rightarrow>
             if paper_truthy p then
               (tot + length refs,
                if common = {} then common \<union> set refs else common \<inter> set refs)
             else (tot, common)))"

fun references_loop :: "paper list \<Rightarrow> nat \<times> pystr set \<Rightarrow> nat \<times> pystr set" where
  "references_loop [] acc = acc"
| "references_loop (p # ps) acc = references_loop ps (references_step acc p)"

definition analyze_references :: "paper list \<Rightarrow> reference_stats" where
  "analyze_references papers_data =
     (case references_loop papers_data (0, {}) of (tot, common) \<Rightarrow>
        \<lparr> total_references = tot,
          common_references = common,
          reference_years = [],
          avg_references_per_paper =
            (if papers_data \<noteq> [] then of_nat tot / of_nat (length papers_data) else 0) \<rparr>)"

section \<open>Text aggregation and theme extraction\<close>

text \<open>
  The f-string of \<^verbatim>\<open>extract_common_themes\<close>, lines 133-138: the three text keys, each read
  with the default \<^verbatim>\<open>''\<close>, joined by single spaces.
\<close>

definition aggregate_text :: "paper \<Rightarrow> pystr" where
  "aggregate_text p =
     py_format (dict_get (title p) (PyStr [])) @ ascii '' '' @
     py_format (dict_get (abstract p) (PyStr [])) @ ascii '' '' @
     py_format (dict_get (body p) (PyStr []))"

text \<open>The loop that fills \<^verbatim>\<open>texts\<close>: a false (empty) paper is skipped.\<close>

fun collect_texts :: "paper list \<Rightarrow> pystr list" where
  "collect_texts [] = []"
| "collect_texts (p # ps) =
     (if paper_truthy p then aggregate_text p # collect_texts ps else collect_texts ps)"

text \<open>One entry of \<^verbatim>\<open>themes\<close>: the keys \<^verbatim>\<open>theme\<close> and \<^verbatim>\<open>keywords\<close>.\<close>

record theme_entry =
  theme :: pystr
  theme_keywords :: "pystr list"

text \<open>\<^verbatim>\<open>str\<close> of a non-negative integer: its decimal digits.\<close>

fun py_str_nat :: "nat \<Rightarrow> pystr" where
  "py_str_nat n = (if n < 10 then [48 + n] else py_str_nat (n div 10) @ [48 + n mod 10])"

declare py_str_nat.simps [simp del]

text \<open>
  The label f-string of line 162: a two-character word (code points 20027 and 39064), a
  space, and \<^verbatim>\<open>topic_idx + 1\<close>.
\<close>

definition theme_label :: "nat \<Rightarrow> pystr" where
  "theme_label topic_idx = [20027, 39064, 32] @ py_str_nat (topic_idx + 1)"

text \<open>
  \<^verbatim>\<open>topic.argsort()\<close> is a library call: it returns the indices of a row in ascending order
  of weight, and the order it gives to equal weights is not fixed (the default sort of the
  library is not stable). It enters the model as the parameter \<open>argsort\<close>. \<open>is_argsort\<close>
  is what the library promises of the result \<open>idx\<close> for a row: every index of the row
  once, with ascending weights. The weights are only compared, so any linear order stands
  for the finite floats of the matrix.
\<close>

definition is_argsort :: "'w::linorder list \<Rightarrow> nat list \<Rightarrow> bool" where
  "is_argsort topic idx \<longleftrightarrow>
     length idx = length topic \<and> distinct idx \<and>
     list_all (\<lambda>i. i < length topic) idx \<and>
     sorted (map (\<lambda>i. topic ! i) idx)"

text \<open>
  The slice \<^verbatim>\<open>[:-10:-1]\<close> of a sequence of length \<open>n\<close>: it starts at index \<open>n - 1\<close> and
  walks down to, and not including, index \<open>n - 10\<close>; when \<open>n < 10\<close> that stop lies before
  the sequence and the walk ends after index 0.
\<close>

definition slice_to_minus10_reversed :: "'a list \<Rightarrow> 'a list" where
  "slice_to_minus10_reversed xs =
     (let n = length xs;
          lowest = (if 10 \<le> n then n - 10 + 1 else 0)
      in map (\<lambda>j. xs ! j) (rev [lowest..<n]))"

text \<open>
  The comprehension \<^verbatim>\<open>[feature_names[i] for i in ...]\<close>. An index outside
  \<^verbatim>\<open>feature_names\<close> raises \<^verbatim>\<open>IndexError\<close>: the result is then \<open>None\<close>.
\<close>

definition top_words ::
  "('w::linorder list \<Rightarrow> nat list) \<Rightarrow> pystr list \<Rightarrow> 'w list \<Rightarrow> pystr list option" where
  "top_words argsort feature_names topic =
     (let idx = slice_to_minus10_reversed (argsort topic)
      in if list_all (\<lambda>i. i < length feature_names) idx
         then Some (map (\<lambda>i. feature_names ! i) idx) else None)"

text \<open>The loop over \<^verbatim>\<open>enumerate(nmf.components_)\<close>, lines 159-164.\<close>

fun build_themes ::
  "('w::linorder list \<Rightarrow> nat list) \<Rightarrow> pystr list \<Rightarrow> nat \<Rightarrow> 'w list list \<Rightarrow> theme_entry list option"
  where
  "build_themes argsort feature_names topic_idx [] = Some []"
| "build_themes argsort feature_names topic_idx (topic # rest) =
     (case top_words argsort feature_names topic of
        None \<Rightarrow> None
      | Some top_ws \<Rightarrow>
          (case build_themes argsort feature_names (topic_idx + 1) rest of
             None \<Rightarrow> None
           | Some themes \<Rightarrow>
               Some (\<lparr> theme = theme_label topic_idx, theme_keywords = top_ws \<rparr> # themes)))"

text \<open>
  \<^verbatim>\<open>extract_common_themes\<close>, lines 126-169. The vectorizer and the factorization are library
  calls: \<open>factorize\<close> takes the texts and returns the vocabulary
  (\<^verbatim>\<open>get_feature_names_out\<close>) with the theme-by-term matrix (\<^verbatim>\<open>nmf.components_\<close>), or
  \<open>None\<close> when one of the calls raises; \<open>argsort\<close> is the library's sort of a row. Every
  exception inside the \<^verbatim>\<open>try\<close> block gives the empty list.
\<close>

definition extract_common_themes ::
  "('w::linorder list \<Rightarrow> nat list) \<Rightarrow> (pystr list \<Rightarrow> (pystr list \<times> 'w list list) option) \<Rightarrow>
   paper list \<Rightarrow> theme_entry list" where
  "extract_common_themes argsort factorize papers_data =
     (if papers_data = [] then []
      else let texts = collect_texts papers_data
           in if texts = [] then []
              else (case factorize texts of
                      None \<Rightarrow> []
                    | Some (feature_names, components) \<Rightarrow>
                        (case build_themes argsort feature_names 0 components of
                           None \<Rightarrow> []
                         | Some themes \<Rightarrow> themes)))"

section \<open>Report synthesis\<close>

record paper_summary =
  summary_title :: pyval
  summary_abstract :: pystr

text \<open>
  One entry of \<^verbatim>\<open>papers_summary\<close> (lines 207-214 and 701-708). The conditional expression
  tests \<^verbatim>\<open>paper.get('abstract')\<close>; the slice \<^verbatim>\<open>[:500]\<close> is evaluated only when that value is
  true, that is a non-empty string, and then the second \<^verbatim>\<open>get\<close> returns the same string.
\<close>

definition summarize_paper :: "paper \<Rightarrow> paper_summary" where
  "summarize_paper p =
     \<lparr> summary_title = dict_get (title p) (PyStr (ascii ''Unknown Title'')),
       summary_abstract =
         (case dict_get (abstract p) PyNone of
            PyNone \<Rightarrow> ascii ''No abstract available''
          | PyStr s \<Rightarrow>
              if pyval_truthy (PyStr s) then take 500 s @ ascii ''...''
              else ascii ''No abstract available'') \<rparr>"

definition summarize_papers :: "paper list \<Rightarrow> paper_summary list" where
  "summarize_papers papers_data = map summarize_paper (filter paper_truthy papers_data)"

text \<open>
  The dictionary \<^verbatim>\<open>review\<close> of \<^verbatim>\<open>analyze\<close> has three keys; the one of
  \<^verbatim>\<open>generate_review\<close> has the same three and two more. The clock reading is the
  parameter \<open>now\<close>. Writing the dictionary to a file is not modelled.
\<close>

record basic_review =
  total_papers :: nat
  papers_summary :: "paper_summary list"
  timestamp :: pystr

record review = basic_review +
  common_themes :: "theme_entry list"
  reference_analysis :: reference_stats

definition analyze :: "pystr \<Rightarrow> paper list \<Rightarrow> basic_review" where
  "analyze now papers_data =
     \<lparr> total_papers = length papers_data,
       papers_summary = summarize_papers papers_data,
       timestamp = now \<rparr>"

definition generate_review ::
  "('w::linorder list \<Rightarrow> nat list) \<Rightarrow> (pystr list \<Rightarrow> (pystr list \<times> 'w list list) option) \<Rightarrow>
   pystr \<Rightarrow> paper list \<Rightarrow> review" where
  "generate_review argsort factorize now papers_data =
     \<lparr> total_papers = length papers_data,
       papers_summary = summarize_papers papers_data,
       timestamp = now,
       common_themes = extract_common_themes argsort factorize papers_data,
       reference_analysis = analyze_references papers_data \<rparr>"

section \<open>Sample inputs\<close>

text \<open>
  A paper as \<^verbatim>\<open>extract_text_from_xml\<close> builds it, all four keys present, with the given
  reference titles.
\<close>

definition extracted_paper :: "pystr list \<Rightarrow> paper" where
  "extracted_paper refs =
     \<lparr> title = Some (PyStr (ascii ''T'')), abstract = Some (PyStr []), body = Some (PyStr []),
       references = Some refs \<rparr>"

text \<open>
  One sort that meets \<open>is_argsort\<close>, to run the examples: it keeps equal weights in index
  order. The library may order equal weights differently.
\<close>

definition stable_argsort :: "'w::linorder list \<Rightarrow> nat list" where
  "stable_argsort topic = sort_key (\<lambda>i. topic ! i) [0..<length topic]"

text \<open>A paper with the given abstract entry and no references.\<close>

definition paper_with_abstract :: "pyval option \<Rightarrow> paper" where
  "paper_with_abstract a =
     \<lparr> title = Some (PyStr (ascii ''T'')), abstract = a, body = Some (PyStr []),
       references = Some [] \<rparr>"

text \<open>A paper whose only text is its title.\<close>

definition text_paper :: "string \<Rightarrow> paper" where
  "text_paper t =
     \<lparr> title = Some (PyStr (ascii t)), abstract = Some (PyStr []), body = Some (PyStr []),
       references = Some [] \<rparr>"

text \<open>
  Three papers that share one term only: \<open>alpha\<close> is in two of the three documents, every
  other word and word pair in one, so \<^verbatim>\<open>min_df=2\<close> leaves the vocabulary \<open>[alpha]\<close>.
\<close>

definition sparse_corpus :: "paper list" where
  "sparse_corpus =
     [text_paper ''alpha beta'', text_paper ''alpha gamma'', text_paper ''delta epsilon'']"

text \<open>
  A factorization result for a vocabulary of one term: five theme rows of one weight each.
  The weights stand for whatever non-negative numbers the library returns.
\<close>

definition one_term_factorization :: "pystr list \<Rightarrow> (pystr list \<times> rat list list) option" where
  "one_term_factorization texts = Some ([ascii ''alpha''], [[1], [0], [1 / 2], [0], [2]])"

text \<open>
  A factorization result with eleven terms and two theme rows; the second row has equal
  weights.
\<close>

definition eleven_terms :: "pystr list" where
  "eleven_terms =
     map ascii [''a'', ''b'', ''c'', ''d'', ''e'', ''f'', ''g'', ''h'', ''i'', ''j'', ''k'']"

definition two_theme_rows :: "rat list list" where
  "two_theme_rows = [[5, 0, 7, 1, 9, 3, 8, 2, 6, 4, 10], [0, 1, 0, 1, 0, 1, 0, 1, 0, 1, 0]]"

definition eleven_term_factorization :: "pystr list \<Rightarrow> (pystr list \<times> rat list list) option" where
  "eleven_term_factorization texts = Some (eleven_terms, two_theme_rows)"

section \<open>What the specification asks of the results\<close>

text \<open>The length of a paper's reference list; a paper without the key counts 0.\<close>

definition reference_count :: "paper \<Rightarrow> nat" where
  "reference_count p = (case references p of None \<Rightarrow> 0 | Some refs \<Rightarrow> length refs)"

text \<open>
  The common set in the words of the specification (4.3): it starts uninitialized; the
  first paper with a reference list sets it to that paper's references, every later one
  intersects it; a set that was never initialized counts as empty.
\<close>

fun seeded_common :: "paper list \<Rightarrow> pystr set option \<Rightarrow> pystr set option" where
  "seeded_common [] c = c"
| "seeded_common (p # ps) c =
     seeded_common ps
       (case references p of
          None \<Rightarrow> c
        | Some refs \<Rightarrow>
            (case c of None \<Rightarrow> Some (set refs) | Some s \<Rightarrow> Some (s \<inter> set refs)))"

definition spec_common_references :: "paper list \<Rightarrow> pystr set" where
  "spec_common_references ps = (case seeded_common ps None of None \<Rightarrow> {} | Some s \<Rightarrow> s)"

text \<open>The number that a string of decimal digits denotes.\<close>

definition decimal_value :: "pystr \<Rightarrow> nat" where
  "decimal_value ds = foldl (\<lambda>acc d. 10 * acc + (d - 48)) 0 ds"

text \<open>A missing text field contributes the empty string.\<close>

fun field_text :: "pystr option \<Rightarrow> pystr" where
  "field_text None = []"
| "field_text (Some s) = s"

text \<open>
  \<open>idx\<close> lists the positions of the \<open>k\<close> largest weights of a row (all positions when the
  row has fewer than \<open>k\<close>), each once, in descending order of weight: no position left
  out has a larger weight than a listed one.
\<close>

definition ranked_top :: "nat \<Rightarrow> 'w::linorder list \<Rightarrow> nat list \<Rightarrow> bool" where
  "ranked_top k topic idx \<longleftrightarrow>
     length idx = min k (length topic) \<and> distinct idx \<and>
     list_all (\<lambda>i. i < length topic) idx \<and>
     sorted (rev (map (\<lambda>i. topic ! i) idx)) \<and>
     list_all (\<lambda>j. j \<in> set idx \<or> list_all (\<lambda>i. topic ! j \<le> topic ! i) idx)
       [0..<length topic]"

text \<open>The theme entry that the loop builds for row \<open>topic_idx\<close>.\<close>

definition row_theme ::
  "('w::linorder list \<Rightarrow> nat list) \<Rightarrow> pystr list \<Rightarrow> nat \<Rightarrow> 'w list \<Rightarrow> theme_entry" where
  "row_theme argsort feature_names topic_idx topic =
     \<lparr> theme = theme_label topic_idx,
       theme_keywords =
         map (\<lambda>i. feature_names ! i) (slice_to_minus10_reversed (argsort topic)) \<rparr>"

section \<open>Facts about the reference analyzer\<close>

lemma references_loop_append:
  "references_loop (ps @ qs) acc = references_loop qs (references_loop ps acc)"
  by (induction ps arbitrary: acc) simp_all

lemmas reference_example_defs =
  analyze_references_def references_step_def extracted_paper_def paper_truthy_def ascii_def

text \<open>
  The first concrete scenario of the specification: reference lists \<open>[X, Y]\<close>, \<open>[X, Z]\<close>
  and \<open>[X]\<close> give 5 references in total, the common set \<open>{X}\<close> and the average 5/3.
\<close>

lemma analyze_references_three_papers:
  "analyze_references
     [extracted_paper [ascii ''X'', ascii ''Y''], extracted_paper [ascii ''X'', ascii ''Z''],
      extracted_paper [ascii ''X'']]
   = \<lparr> total_references = 5, common_references = {ascii ''X''}, reference_years = [],
       avg_references_per_paper = 5 / 3 \<rparr>"
  by (simp add: reference_example_defs)

lemma reference_truthy: "references p = Some refs \<Longrightarrow> paper_truthy p"
  by (simp add: paper_truthy_def)

text \<open>The total is the sum of the lengths of the reference lists.\<close>

lemma references_loop_total:
  "fst (references_loop ps acc) = fst acc + sum_list (map reference_count ps)"
  by (induction ps arbitrary: acc)
    (auto simp: references_step_def reference_count_def reference_truthy
      split: prod.splits option.splits)

lemma total_references_sum:
  "total_references (analyze_references ps) = sum_list (map reference_count ps)"
  using references_loop_total [of ps "(0, {})"]
  by (cases "references_loop ps (0, {})") (simp add: analyze_references_def)

lemma avg_references_quotient:
  "avg_references_per_paper (analyze_references ps) =
     (if ps = [] then 0
      else of_nat (total_references (analyze_references ps)) / of_nat (length ps))"
  by (simp add: analyze_references_def split: prod.splits)

text \<open>The total and the average are the same on every ordering of a corpus.\<close>

lemma total_references_permutation:
  assumes "mset ps = mset qs"
  shows "total_references (analyze_references ps) = total_references (analyze_references qs)"
    and "avg_references_per_paper (analyze_references ps)
       = avg_references_per_paper (analyze_references qs)"
proof -
  have "sum_list (map reference_count ps) = sum_mset (image_mset reference_count (mset ps))"
    by (metis mset_map sum_mset_sum_list)
  also have "\<dots> = sum_list (map reference_count qs)"
    unfolding assms by (metis mset_map sum_mset_sum_list)
  finally show tot:
    "total_references (analyze_references ps) = total_references (analyze_references qs)"
    by (simp add: total_references_sum)
  have "length ps = length qs"
    using assms by (rule mset_eq_length)
  moreover have "ps = [] \<longleftrightarrow> qs = []"
    using assms by (metis mset_zero_iff)
  ultimately show "avg_references_per_paper (analyze_references ps)
       = avg_references_per_paper (analyze_references qs)"
    by (simp add: avg_references_quotient tot)
qed

text \<open>A last paper with an empty reference list leaves no common reference.\<close>

lemma common_references_empty_list_last:
  "references p = Some [] \<Longrightarrow> common_references (analyze_references (ps @ [p])) = {}"
  by (auto simp: analyze_references_def references_loop_append references_step_def
      reference_truthy split: prod.splits option.splits if_splits)

text \<open>
  The second concrete scenario of the specification: one paper with an empty reference
  list.
\<close>

lemma analyze_references_one_paper_no_references:
  "analyze_references [extracted_paper []]
   = \<lparr> total_references = 0, common_references = {}, reference_years = [],
       avg_references_per_paper = 0 \<rparr>"
  by (simp add: reference_example_defs)

text \<open>
  The algorithm as the specification words it keeps the common set inside the reference
  set of every paper, and has no common reference on the lists \<open>[]\<close> and \<open>[X]\<close>.
\<close>

lemma seeded_common_shrinks:
  "seeded_common ps (Some t) = Some s \<Longrightarrow> s \<subseteq> t"
proof (induction ps arbitrary: t)
  case Nil
  then show ?case by simp
next
  case (Cons p ps)
  then show ?case
    by (cases "references p") (auto dest: Cons.IH)
qed

lemma seeded_common_within:
  "seeded_common ps c = Some s \<Longrightarrow> p \<in> set ps \<Longrightarrow> references p = Some refs
   \<Longrightarrow> s \<subseteq> set refs"
proof (induction ps arbitrary: c)
  case Nil
  then show ?case by simp
next
  case (Cons q qs)
  show ?case
  proof (cases "p = q")
    case True
    with Cons.prems show ?thesis
      by (cases c) (auto dest: seeded_common_shrinks)
  next
    case False
    with Cons.prems have "p \<in> set qs" by simp
    with Cons.prems(1,3) show ?thesis
      by (auto dest: Cons.IH)
  qed
qed

lemma seeded_common_Some:
  "p \<in> set ps \<Longrightarrow> references p = Some refs \<Longrightarrow> \<exists>s. seeded_common ps c = Some s"
proof (induction ps arbitrary: c)
  case Nil
  then show ?case by simp
next
  case (Cons q qs)
  have keep: "\<exists>s. seeded_common qs (Some t) = Some s" for t
    by (induction qs arbitrary: t) (auto split: option.splits)
  show ?case
  proof (cases "p = q")
    case True
    with Cons.prems show ?thesis
      by (cases c) (simp_all add: keep)
  next
    case False
    with Cons.prems have "p \<in> set qs" by simp
    with Cons.prems(2) show ?thesis
      by (simp add: Cons.IH)
  qed
qed

lemma spec_common_references_within:
  assumes "p \<in> set ps" and "references p = Some refs"
  shows "spec_common_references ps \<subseteq> set refs"
proof -
  from assms obtain s where s: "seeded_common ps None = Some s"
    using seeded_common_Some by blast
  from s assms have "s \<subseteq> set refs"
    by (rule seeded_common_within)
  with s show ?thesis
    by (simp add: spec_common_references_def)
qed

lemma spec_common_references_empty_list:
  "spec_common_references [extracted_paper [], extracted_paper [ascii ''X'']] = {}"
  by (simp add: spec_common_references_def extracted_paper_def)

text \<open>
  C1. The claim: the common set is seeded once, from the first paper, and only intersected
  afterwards, so a corpus with one empty reference list and one other paper has no common
  reference. The analyzer seeds the set whenever it is empty, not only at the first paper:
  on the reference lists \<open>[]\<close> and \<open>[X]\<close> the second paper seeds it again and the result
  is \<open>{X}\<close>.
\<close>

theorem analyze_references_reseeds_after_empty_list:
  "common_references (analyze_references [extracted_paper [], extracted_paper [ascii ''X'']])
     = {ascii ''X''}"
  by (simp add: reference_example_defs)

text \<open>
  C2. The claim: the common set of a corpus with one more paper is a subset of the common
  set of the corpus. Adding the first paper to the empty corpus seeds the set, so the
  claim fails there, as the counterexample shows. What holds, and what the theorem
  states: when the common set of the corpus is not empty, the common set after appending
  any paper is a subset of it.
\<close>

theorem common_references_shrink_when_nonempty:
  "common_references (analyze_references ps) \<noteq> {} \<Longrightarrow>
   common_references (analyze_references (ps @ [p])) \<subseteq> common_references (analyze_references ps)"
  by (auto simp: analyze_references_def references_loop_append references_step_def
      split: prod.splits option.splits if_splits)

theorem common_references_shrink_when_nonempty_witness:
  "common_references (analyze_references [extracted_paper [ascii ''X'', ascii ''Y'']]) \<noteq> {} \<and>
   common_references
     (analyze_references
        ([extracted_paper [ascii ''X'', ascii ''Y'']] @ [extracted_paper [ascii ''X'', ascii ''Z'']]))
   \<subseteq> common_references (analyze_references [extracted_paper [ascii ''X'', ascii ''Y'']])"
proof -
  have nonempty:
    "common_references (analyze_references [extracted_paper [ascii ''X'', ascii ''Y'']]) \<noteq> {}"
    by (simp add: reference_example_defs)
  from common_references_shrink_when_nonempty [OF nonempty] nonempty show ?thesis
    by blast
qed

theorem common_references_grow_from_empty_corpus:
  "\<not> common_references (analyze_references ([] @ [extracted_paper [ascii ''X'']]))
       \<subseteq> common_references (analyze_references [])"
  by (simp add: reference_example_defs)

text \<open>
  C3. The claim: the common set is a subset of the reference set of every paper. On the
  reference lists \<open>[X]\<close>, \<open>[Y]\<close> and \<open>[Z]\<close> the intersection of the first two is empty,
  the third paper seeds the set again, and the result \<open>{Z}\<close> is not a subset of the
  first paper's reference set.
\<close>

theorem common_references_not_within_first_paper:
  "common_references
     (analyze_references
        [extracted_paper [ascii ''X''], extracted_paper [ascii ''Y''], extracted_paper [ascii ''Z'']])
     = {ascii ''Z''} \<and>
   ascii ''Z'' \<notin> set [ascii ''X'']"
  by (simp add: reference_example_defs)

text \<open>
  C4. The claim: the statistics do not depend on the order of the corpus. The reference
  lists \<open>[X]\<close>, \<open>[]\<close> give the empty common set in this order and \<open>{X}\<close> in the other
  order.
\<close>

theorem common_references_depend_on_order:
  "common_references (analyze_references [extracted_paper [ascii ''X''], extracted_paper []]) = {} \<and>
   common_references (analyze_references [extracted_paper [], extracted_paper [ascii ''X'']])
     = {ascii ''X''}"
  by (simp add: reference_example_defs)

section \<open>Facts about the theme extractor\<close>

lemma map_nth_from: "map (\<lambda>j. xs ! j) [a..<length xs] = drop a xs"
  by (rule nth_equalityI) simp_all

text \<open>The slice keeps the last nine elements, last first.\<close>

lemma slice_to_minus10_reversed_eq: "slice_to_minus10_reversed xs = take 9 (rev xs)"
proof -
  let ?n = "length xs"
  have low: "(if 10 \<le> ?n then ?n - 10 + 1 else 0) = ?n - 9"
    by arith
  have "slice_to_minus10_reversed xs = map (\<lambda>j. xs ! j) (rev [?n - 9..<?n])"
    unfolding slice_to_minus10_reversed_def Let_def low ..
  also have "\<dots> = rev (map (\<lambda>j. xs ! j) [?n - 9..<?n])"
    by (simp only: rev_map)
  also have "\<dots> = rev (drop (?n - 9) xs)"
    by (simp only: map_nth_from)
  also have "\<dots> = take 9 (rev xs)"
    by (simp only: take_rev)
  finally show ?thesis .
qed

text \<open>A result that meets \<open>is_argsort\<close> holds exactly the indices of the row.\<close>

lemma is_argsort_set:
  assumes "is_argsort topic idx"
  shows "set idx = {0..<length topic}"
proof -
  from assms have sub: "set idx \<subseteq> {0..<length topic}"
    by (auto simp: is_argsort_def list_all_iff)
  from assms have "card (set idx) = length topic"
    by (simp add: is_argsort_def distinct_card)
  then have "card (set idx) = card {0..<length topic}"
    by simp
  with sub show ?thesis
    by (intro card_subset_eq) simp_all
qed

lemma is_argsort_stable: "is_argsort topic (stable_argsort topic)"
  by (simp add: is_argsort_def stable_argsort_def list_all_iff)

text \<open>A row of one weight has one sorted index list.\<close>

lemma is_argsort_single: "is_argsort [w] idx \<Longrightarrow> idx = [0]"
  by (cases idx) (simp_all add: is_argsort_def)

text \<open>
  Whatever order the sort gives to equal weights, the slice of its result lists the
  positions of the largest weights in descending order.
\<close>

lemma ranked_top_slice:
  assumes "is_argsort topic a"
  shows "ranked_top 9 topic (slice_to_minus10_reversed a)"
proof -
  let ?n = "length topic"
  let ?low = "take (?n - 9) a" and ?high = "drop (?n - 9) a"
  let ?idx = "take 9 (rev a)"
  from assms have length_a: "length a = ?n" and distinct_a: "distinct a"
    and sorted_a: "sorted (map (\<lambda>i. topic ! i) a)"
    by (simp_all add: is_argsort_def)
  have set_a: "set a = {0..<?n}"
    using assms by (rule is_argsort_set)
  have idx: "?idx = rev ?high"
    by (simp add: take_rev length_a)
  have split: "a = ?low @ ?high" by simp
  have len: "length ?idx = min 9 ?n" by (simp add: length_a)
  have dist: "distinct ?idx" by (simp add: idx distinct_a)
  have sub: "set ?idx \<subseteq> {0..<?n}"
    using set_a by (metis set_rev set_take_subset)
  have bound: "list_all (\<lambda>i. i < ?n) ?idx"
    using sub by (auto simp: list_all_iff)
  have "sorted (map (\<lambda>i. topic ! i) ?high)"
    using sorted_a by (simp add: sorted_wrt_drop flip: drop_map)
  then have desc: "sorted (rev (map (\<lambda>i. topic ! i) ?idx))"
    by (simp add: idx rev_map)
  have "sorted (map (\<lambda>i. topic ! i) ?low @ map (\<lambda>i. topic ! i) ?high)"
    using sorted_a by (metis split map_append)
  then have le: "\<forall>j\<in>set ?low. \<forall>i\<in>set ?high. topic ! j \<le> topic ! i"
    by (auto simp: sorted_append)
  have maxi:
    "list_all (\<lambda>j. j \<in> set ?idx \<or> list_all (\<lambda>i. topic ! j \<le> topic ! i) ?idx) [0..<?n]"
  proof -
    have "j \<in> set ?idx \<or> (\<forall>i\<in>set ?idx. topic ! j \<le> topic ! i)" if "j < ?n" for j
    proof -
      from that have "j \<in> set a" by (simp add: set_a)
      then have "j \<in> set ?low \<or> j \<in> set ?high" by (metis split set_append Un_iff)
      then show ?thesis using le by (auto simp: idx)
    qed
    then show ?thesis by (auto simp: list_all_iff)
  qed
  show ?thesis
    unfolding ranked_top_def slice_to_minus10_reversed_eq
    using len dist bound desc maxi by blast
qed

text \<open>No index error when the row is as long as the vocabulary.\<close>

lemma top_words_well_shaped:
  assumes "length topic = length feature_names" and "is_argsort topic (argsort topic)"
  shows "top_words argsort feature_names topic =
     Some (map (\<lambda>i. feature_names ! i) (slice_to_minus10_reversed (argsort topic)))"
proof -
  have "list_all (\<lambda>i. i < length topic) (slice_to_minus10_reversed (argsort topic))"
    using ranked_top_slice [OF assms(2)] by (simp add: ranked_top_def)
  with assms(1) show ?thesis
    by (simp add: top_words_def Let_def)
qed

lemma build_themes_well_shaped:
  "list_all (\<lambda>topic. length topic = length feature_names) components \<Longrightarrow>
   list_all (\<lambda>topic. is_argsort topic (argsort topic)) components \<Longrightarrow>
   build_themes argsort feature_names k components =
     Some (map (\<lambda>i. row_theme argsort feature_names (k + i) (components ! i))
             [0..<length components])"
proof (induction components arbitrary: k)
  case Nil
  then show ?case by simp
next
  case (Cons topic rest)
  then have shape: "length topic = length feature_names"
    and sorts: "is_argsort topic (argsort topic)"
    and rest: "list_all (\<lambda>topic. length topic = length feature_names) rest"
      "list_all (\<lambda>topic. is_argsort topic (argsort topic)) rest"
    by simp_all
  have idx: "[0..<length (topic # rest)] = 0 # map Suc [0..<length rest]"
    by (simp add: upt_conv_Cons map_Suc_upt del: upt_Suc)
  have first: "top_words argsort feature_names topic =
      Some (map (\<lambda>i. feature_names ! i) (slice_to_minus10_reversed (argsort topic)))"
    using shape sorts by (rule top_words_well_shaped)
  show ?case
    unfolding idx
    by (simp add: first Cons.IH [OF rest] row_theme_def comp_def)
qed

lemma extract_common_themes_well_shaped:
  assumes "factorize (collect_texts papers_data) = Some (feature_names, components)"
      and "collect_texts papers_data \<noteq> []"
      and "list_all (\<lambda>topic. length topic = length feature_names) components"
      and "list_all (\<lambda>topic. is_argsort topic (argsort topic)) components"
  shows "extract_common_themes argsort factorize papers_data =
     map (\<lambda>i. row_theme argsort feature_names i (components ! i)) [0..<length components]"
proof -
  from assms(2) have "papers_data \<noteq> []" by auto
  with assms show ?thesis
    by (simp add: extract_common_themes_def Let_def build_themes_well_shaped)
qed

text \<open>On a vocabulary of one term every sort gives the one keyword.\<close>

lemma top_words_single:
  assumes "is_argsort [w] (argsort [w])"
  shows "top_words argsort [name] [w] = Some [name]"
  using is_argsort_single [OF assms]
  by (simp add: top_words_def slice_to_minus10_reversed_def)

lemma collect_texts_sparse_corpus: "collect_texts sparse_corpus \<noteq> []"
  by (simp add: sparse_corpus_def text_paper_def paper_truthy_def)

text \<open>The digits of \<^verbatim>\<open>str\<close> denote the number.\<close>

lemma py_str_nat_value: "decimal_value (py_str_nat n) = n"
proof (induction n rule: py_str_nat.induct)
  case (1 n)
  show ?case
  proof (cases "n < 10")
    case True
    then show ?thesis by (simp add: py_str_nat.simps decimal_value_def)
  next
    case False
    with 1 show ?thesis
      unfolding decimal_value_def by (subst py_str_nat.simps) simp
  qed
qed

text \<open>
  The first theme of the eleven-term example, evaluated. The weights of its row are all
  different.
\<close>

lemma extract_common_themes_eleven_terms:
  "extract_common_themes stable_argsort eleven_term_factorization sparse_corpus ! 0 =
     \<lparr> theme = [20027, 39064, 32, 49],
       theme_keywords =
         map ascii [''k'', ''e'', ''g'', ''c'', ''i'', ''a'', ''j'', ''f'', ''h''] \<rparr>"
  by (simp add: extract_common_themes_def eleven_term_factorization_def
      sparse_corpus_def text_paper_def paper_truthy_def eleven_terms_def two_theme_rows_def
      top_words_def stable_argsort_def slice_to_minus10_reversed_def theme_label_def
      py_str_nat.simps ascii_def)

text \<open>
  C8. The claim: every returned theme has exactly 9 keywords, the 9 terms of largest
  weight in its row in descending order of weight, and is labelled by its 1-based
  position. The slice \<^verbatim>\<open>[:-10:-1]\<close> returns fewer than 9 indices when the vocabulary has
  fewer than 9 terms, so the claim fails on a vocabulary of one term, as the
  counterexample shows (a row of one weight has the one sorted index list \<open>[0]\<close>, whatever
  the sort). What holds, and what the theorem states: when the factorization returns a
  vocabulary and a matrix whose rows are as long as the vocabulary, and the sort returns
  the indices of each row in ascending order of weight, there is one theme for each row;
  theme \<open>k\<close> (counted from 0) is labelled with the decimal digits of \<open>k + 1\<close> and has
  \<open>min 9 n\<close> keywords for a vocabulary of \<open>n\<close> terms, and they are the terms at the
  positions of the largest weights of row \<open>k\<close>, in descending order of weight.
\<close>

theorem extract_common_themes_top_keywords:
  assumes "factorize (collect_texts papers_data) = Some (feature_names, components)"
      and "collect_texts papers_data \<noteq> []"
      and "list_all (\<lambda>topic. length topic = length feature_names) components"
      and "list_all (\<lambda>topic. is_argsort topic (argsort topic)) components"
      and "k < length components"
  shows "length (extract_common_themes argsort factorize papers_data) = length components \<and>
         theme (extract_common_themes argsort factorize papers_data ! k)
           = [20027, 39064, 32] @ py_str_nat (k + 1) \<and>
         length (theme_keywords (extract_common_themes argsort factorize papers_data ! k))
           = min 9 (length feature_names) \<and>
         (\<exists>idx. ranked_top 9 (components ! k) idx \<and>
            theme_keywords (extract_common_themes argsort factorize papers_data ! k)
              = map (\<lambda>i. feature_names ! i) idx)"
proof -
  let ?idx = "slice_to_minus10_reversed (argsort (components ! k))"
  have all: "extract_common_themes argsort factorize papers_data =
     map (\<lambda>i. row_theme argsort feature_names i (components ! i)) [0..<length components]"
    using assms(1-4) by (rule extract_common_themes_well_shaped)
  have kth: "extract_common_themes argsort factorize papers_data ! k
      = row_theme argsort feature_names k (components ! k)"
    using assms(5) by (simp add: all)
  have "is_argsort (components ! k) (argsort (components ! k))"
    using assms(4,5) by (simp add: list_all_length)
  then have ranked: "ranked_top 9 (components ! k) ?idx"
    by (rule ranked_top_slice)
  have "length (components ! k) = length feature_names"
    using assms(3,5) by (simp add: list_all_length)
  with ranked have len: "length ?idx = min 9 (length feature_names)"
    by (simp add: ranked_top_def)
  have kw: "theme_keywords (extract_common_themes argsort factorize papers_data ! k)
      = map (\<lambda>i. feature_names ! i) ?idx"
    by (simp add: kth row_theme_def)
  have "length (extract_common_themes argsort factorize papers_data) = length components"
    by (simp add: all)
  moreover have "theme (extract_common_themes argsort factorize papers_data ! k)
      = [20027, 39064, 32] @ py_str_nat (k + 1)"
    by (simp add: kth row_theme_def theme_label_def)
  moreover have
    "length (theme_keywords (extract_common_themes argsort factorize papers_data ! k))
      = min 9 (length feature_names)"
    by (simp add: kw len)
  ultimately show ?thesis using ranked kw by blast
qed

theorem extract_common_themes_top_keywords_witness:
  "eleven_term_factorization (collect_texts sparse_corpus) = Some (eleven_terms, two_theme_rows) \<and>
   collect_texts sparse_corpus \<noteq> [] \<and>
   list_all (\<lambda>topic. length topic = length eleven_terms) two_theme_rows \<and>
   list_all (\<lambda>topic. is_argsort topic (stable_argsort topic)) two_theme_rows \<and>
   1 < length two_theme_rows \<and>
   length (extract_common_themes stable_argsort eleven_term_factorization sparse_corpus)
     = length two_theme_rows \<and>
   theme (extract_common_themes stable_argsort eleven_term_factorization sparse_corpus ! 1)
     = [20027, 39064, 32] @ py_str_nat (1 + 1) \<and>
   length (theme_keywords
      (extract_common_themes stable_argsort eleven_term_factorization sparse_corpus ! 1))
     = min 9 (length eleven_terms) \<and>
   (\<exists>idx. ranked_top 9 (two_theme_rows ! 1) idx \<and>
      theme_keywords
        (extract_common_themes stable_argsort eleven_term_factorization sparse_corpus ! 1)
        = map (\<lambda>i. eleven_terms ! i) idx)"
proof -
  have h1: "eleven_term_factorization (collect_texts sparse_corpus)
      = Some (eleven_terms, two_theme_rows)"
    by (simp add: eleven_term_factorization_def)
  have h2: "collect_texts sparse_corpus \<noteq> []"
    by (rule collect_texts_sparse_corpus)
  have h3: "list_all (\<lambda>topic. length topic = length eleven_terms) two_theme_rows"
    by (simp add: eleven_terms_def two_theme_rows_def)
  have h4: "list_all (\<lambda>topic. is_argsort topic (stable_argsort topic)) two_theme_rows"
    by (simp add: list_all_iff is_argsort_stable)
  have h5: "1 < length two_theme_rows"
    by (simp add: two_theme_rows_def)
  from extract_common_themes_top_keywords
    [of eleven_term_factorization sparse_corpus eleven_terms two_theme_rows stable_argsort 1,
      OF h1 h2 h3 h4 h5]
    h1 h2 h3 h4 h5
  show ?thesis by blast
qed

theorem extract_common_themes_one_keyword:
  "length (extract_common_themes stable_argsort one_term_factorization sparse_corpus) = 5 \<and>
   theme_keywords (extract_common_themes stable_argsort one_term_factorization sparse_corpus ! 0)
     = [ascii ''alpha''] \<and>
   length (theme_keywords
      (extract_common_themes stable_argsort one_term_factorization sparse_corpus ! 0)) \<noteq> 9"
  by (simp add: extract_common_themes_def one_term_factorization_def sparse_corpus_def
      text_paper_def paper_truthy_def top_words_def stable_argsort_def
      slice_to_minus10_reversed_def)

section \<open>Facts about text aggregation and the report\<close>

text \<open>
  For a paper whose text fields, where present, hold strings, and with any of the three
  keys absent, the aggregated text is the title, a space, the abstract, a space and the
  body, where an absent key contributes the empty string.
\<close>

lemma aggregate_text_missing_fields:
  "aggregate_text
     \<lparr> title = map_option PyStr t, abstract = map_option PyStr a, body = map_option PyStr b,
       references = r \<rparr>
   = field_text t @ ascii '' '' @ field_text a @ ascii '' '' @ field_text b"
  by (cases t; cases a; cases b) (simp_all add: aggregate_text_def dict_get_def)

text \<open>A document without title element gets the empty title.\<close>

lemma aggregate_text_no_title_element:
  "aggregate_text (extract_paper None (ascii ''a'') (ascii ''b'') []) = ascii '' a b''"
  by (simp add: aggregate_text_def extract_paper_def title_text_def dict_get_def ascii_def)

text \<open>
  C6. The claim: a missing title, abstract or body contributes the empty string to the
  aggregated text, and no \<open>None\<close> marker ever appears in it. The default \<^verbatim>\<open>''\<close> of
  \<^verbatim>\<open>get\<close> covers an absent key only. For a document whose title element has no text the
  extractor stores \<^verbatim>\<open>None\<close> under the key \<^verbatim>\<open>title\<close>, and the f-string renders it: with
  the abstract \<open>a\<close> and the body \<open>b\<close> the aggregated text is \<open>None a b\<close>, where the claim
  asks for \<open> a b\<close>.
\<close>

theorem aggregate_text_renders_none_title:
  "aggregate_text (extract_paper (Some None) (ascii ''a'') (ascii ''b'') []) = ascii ''None a b''"
  by (simp add: aggregate_text_def extract_paper_def title_text_def dict_get_def ascii_def)

text \<open>
  C7. On the empty corpus the theme extractor returns no theme, whatever the
  factorization and the sort would do; the reference analyzer returns the total 0, the empty common
  set and the average 0; and the review has \<open>total_papers = 0\<close>, no summary, no theme and
  those reference statistics.
\<close>

theorem empty_corpus_results:
  "extract_common_themes argsort factorize [] = [] \<and>
   analyze_references [] =
     \<lparr> total_references = 0, common_references = {}, reference_years = [],
       avg_references_per_paper = 0 \<rparr> \<and>
   generate_review argsort factorize now [] =
     \<lparr> total_papers = 0, papers_summary = [], timestamp = now, common_themes = [],
       reference_analysis =
         \<lparr> total_references = 0, common_references = {}, reference_years = [],
           avg_references_per_paper = 0 \<rparr> \<rparr>"
  by (simp add: extract_common_themes_def analyze_references_def generate_review_def
      summarize_papers_def)

text \<open>A paper with an abstract entry is a true dictionary, so it has a summary.\<close>

lemma summarize_papers_member:
  "p \<in> set papers_data \<Longrightarrow> abstract p \<noteq> None \<Longrightarrow>
   summarize_paper p \<in> set (summarize_papers papers_data)"
  by (simp add: summarize_papers_def paper_truthy_def)

lemma papers_summary_generate_review:
  "papers_summary (generate_review argsort factorize now papers_data)
     = summarize_papers papers_data"
  by (simp add: generate_review_def)

lemma papers_summary_analyze:
  "papers_summary (analyze now papers_data) = summarize_papers papers_data"
  by (simp add: analyze_def)

text \<open>
  C5. The summary of a paper: an abstract of more than 500 characters gives its first 500
  characters followed by three dots; a non-empty abstract of at most 500 characters gives
  the whole abstract followed by three dots; an absent abstract gives the default string
  \<open>No abstract available\<close>.
\<close>

theorem summary_abstract_truncation:
  "(abstract p = Some (PyStr s) \<and> 500 < length s \<longrightarrow>
      summary_abstract (summarize_paper p) = take 500 s @ ascii ''...'') \<and>
   (abstract p = Some (PyStr s) \<and> s \<noteq> [] \<and> length s \<le> 500 \<longrightarrow>
      summary_abstract (summarize_paper p) = s @ ascii ''...'') \<and>
   (abstract p = None \<longrightarrow>
      summary_abstract (summarize_paper p) = ascii ''No abstract available'')"
  by (auto simp: summarize_paper_def dict_get_def)

theorem summary_abstract_truncation_witness:
  "500 < length (replicate 501 (97::nat)) \<and>
   summary_abstract (summarize_paper (paper_with_abstract (Some (PyStr (replicate 501 97)))))
     = replicate 500 97 @ ascii ''...'' \<and>
   summary_abstract (summarize_paper (paper_with_abstract (Some (PyStr (ascii ''short'')))))
     = ascii ''short...'' \<and>
   summary_abstract (summarize_paper (paper_with_abstract None))
     = ascii ''No abstract available''"
  using
    summary_abstract_truncation
      [of "paper_with_abstract (Some (PyStr (replicate 501 97)))" "replicate 501 97"]
    summary_abstract_truncation
      [of "paper_with_abstract (Some (PyStr (ascii ''short'')))" "ascii ''short''"]
    summary_abstract_truncation [of "paper_with_abstract None"]
  by (simp add: paper_with_abstract_def ascii_def)

text \<open>
  C10. A paper whose abstract is present and equal to the empty string has a summary in
  both reviews (the one of \<^verbatim>\<open>generate_review\<close> and the one of \<^verbatim>\<open>analyze\<close>), and the
  abstract of that summary is the default string \<open>No abstract available\<close>, as for a paper
  without abstract, and not the empty string followed by three dots.
\<close>

theorem summary_abstract_empty_string:
  assumes "p \<in> set papers_data" and "abstract p = Some (PyStr [])"
  shows "summarize_paper p
           \<in> set (papers_summary (generate_review argsort factorize now papers_data)) \<and>
         summarize_paper p \<in> set (papers_summary (analyze now papers_data)) \<and>
         summary_abstract (summarize_paper p) = ascii ''No abstract available'' \<and>
         summary_abstract (summarize_paper p)
           = summary_abstract (summarize_paper (p\<lparr>abstract := None\<rparr>)) \<and>
         summary_abstract (summarize_paper p) \<noteq> [] @ ascii ''...''"
proof -
  from assms have "summarize_paper p \<in> set (summarize_papers papers_data)"
    by (simp add: summarize_papers_member)
  moreover from assms(2) have
    "summary_abstract (summarize_paper p) = ascii ''No abstract available''"
    "summary_abstract (summarize_paper p)
       = summary_abstract (summarize_paper (p\<lparr>abstract := None\<rparr>))"
    "summary_abstract (summarize_paper p) \<noteq> [] @ ascii ''...''"
    by (simp_all add: summarize_paper_def dict_get_def ascii_def)
  ultimately show ?thesis
    by (simp add: papers_summary_generate_review papers_summary_analyze)
qed

theorem summary_abstract_empty_string_witness:
  "paper_with_abstract (Some (PyStr [])) \<in> set [paper_with_abstract (Some (PyStr []))] \<and>
   abstract (paper_with_abstract (Some (PyStr []))) = Some (PyStr []) \<and>
   summarize_paper (paper_with_abstract (Some (PyStr [])))
     \<in> set (papers_summary
         (generate_review stable_argsort one_term_factorization
            (ascii ''2024-01-01 00:00:00'')
            [paper_with_abstract (Some (PyStr []))])) \<and>
   summarize_paper (paper_with_abstract (Some (PyStr [])))
     \<in> set (papers_summary
         (analyze (ascii ''2024-01-01 00:00:00'') [paper_with_abstract (Some (PyStr []))])) \<and>
   summary_abstract (summarize_paper (paper_with_abstract (Some (PyStr []))))
     = ascii ''No abstract available'' \<and>
   summary_abstract (summarize_paper (paper_with_abstract (Some (PyStr []))))
     = summary_abstract
         (summarize_paper ((paper_with_abstract (Some (PyStr [])))\<lparr>abstract := None\<rparr>)) \<and>
   summary_abstract (summarize_paper (paper_with_abstract (Some (PyStr [])))) \<noteq> [] @ ascii ''...''"
proof -
  have h1: "paper_with_abstract (Some (PyStr [])) \<in> set [paper_with_abstract (Some (PyStr []))]"
    by simp
  have h2: "abstract (paper_with_abstract (Some (PyStr []))) = Some (PyStr [])"
    by (simp add: paper_with_abstract_def)
  from summary_abstract_empty_string
    [of "paper_with_abstract (Some (PyStr []))" "[paper_with_abstract (Some (PyStr []))]"
      stable_argsort one_term_factorization "ascii ''2024-01-01 00:00:00''", OF h1 h2]
    h1 h2
  show ?thesis by blast
qed

end
